theory Spec2Isabelle
  imports Main "HOL-Library.Monad_Syntax"
begin

section \<open>Values, documents and errors\<close>

text \<open>
  The service moves JSON-like values between Pub/Sub, pydantic models and Firestore.
  A Python dict is an association list in which the first binding of a key is the one
  in force. Numbers with a fraction are not represented.
\<close>

datatype json =
    JNull
  | JBool bool
  | JInt int
  | JStr string
  | JList "json list"
  | JObj "(string \<times> json) list"

type_synonym doc = "(string \<times> json) list"

text \<open>Every exception of the source is a value; the string is what \<open>str(e)\<close> gives.\<close>

datatype error =
    ValidationError string
  | ValueError string
  | TypeError string
  | AttributeError string
  | DecodeError string
  | PersistenceError string
  | NotFound string
  | ProviderError string
  | GenericException string

fun err_str :: "error \<Rightarrow> string" where
  "err_str (ValidationError m) = m"
| "err_str (ValueError m) = m"
| "err_str (TypeError m) = m"
| "err_str (AttributeError m) = m"
| "err_str (DecodeError m) = m"
| "err_str (PersistenceError m) = m"
| "err_str (NotFound m) = m"
| "err_str (ProviderError m) = m"
| "err_str (GenericException m) = m"

text \<open>\<open>d.get(k, default)\<close>; \<open>k in d\<close> is \<open>map_of d k \<noteq> None\<close>.\<close>

definition dget :: "doc \<Rightarrow> string \<Rightarrow> json \<Rightarrow> json" where
  "dget d k dflt = (case map_of d k of Some v \<Rightarrow> v | None \<Rightarrow> dflt)"

text \<open>Python truthiness of a value, as used by \<open>if x:\<close>, \<open>not x\<close> and \<open>x or y\<close>.\<close>

fun truthy :: "json \<Rightarrow> bool" where
  "truthy JNull = False"
| "truthy (JBool b) = b"
| "truthy (JInt n) = (n \<noteq> 0)"
| "truthy (JStr s) = (s \<noteq> [])"
| "truthy (JList xs) = (xs \<noteq> [])"
| "truthy (JObj kv) = (kv \<noteq> [])"

text \<open>Decimal digits of an integer, for the f-strings that print the retry ceiling.\<close>

fun digit_char :: "nat \<Rightarrow> char" where
  "digit_char n = char_of (48 + n)"

function show_nat :: "nat \<Rightarrow> string" where
  "show_nat n = (if n < 10 then [digit_char n] else show_nat (n div 10) @ [digit_char (n mod 10)])"
  by pat_completeness auto
termination
  by (relation "measure (\<lambda>n. n)") auto

declare show_nat.simps [simp del]

definition show_int :: "int \<Rightarrow> string" where
  "show_int i = (if i < 0 then CHR ''-'' # show_nat (nat (- i)) else show_nat (nat i))"

text \<open>
  The numeric reading of a value: Python's \<open>bool\<close> is a subclass of \<open>int\<close>.
\<close>

fun as_num :: "json \<Rightarrow> int option" where
  "as_num (JInt n) = Some n"
| "as_num (JBool b) = Some (if b then 1 else 0)"
| "as_num _ = None"

fun str_le :: "string \<Rightarrow> string \<Rightarrow> bool" where
  "str_le [] _ = True"
| "str_le (x # xs) [] = False"
| "str_le (x # xs) (y # ys) =
     (if (of_char x :: nat) < of_char y then True
      else if x = y then str_le xs ys else False)"

text \<open>
  \<open>a >= b\<close> on stored values. Two numbers and two strings are ordered; the handler
  itself only ever stores integers in the two counters. Any other pair of operands
  takes the TypeError branch (the model does not order two arrays).
\<close>

definition py_ge :: "json \<Rightarrow> json \<Rightarrow> error + bool" where
  "py_ge a b =
     (case (as_num a, as_num b) of
        (Some x, Some y) \<Rightarrow> Inr (y \<le> x)
      | _ \<Rightarrow> (case (a, b) of
                (JStr s, JStr t) \<Rightarrow> Inr (str_le t s)
              | _ \<Rightarrow> Inl (TypeError ''>= not supported between these operands'')))"

text \<open>\<open>retry_count += 1\<close>: defined on numbers, a TypeError on every other value.\<close>

definition py_incr :: "json \<Rightarrow> error + json" where
  "py_incr a =
     (case as_num a of
        Some x \<Rightarrow> Inr (JInt (x + 1))
      | None \<Rightarrow> Inl (TypeError ''unsupported operand for += 1''))"

text \<open>
  \<open>f'{v}'\<close> for the value printed in the two error messages. It is reached only
  behind a successful \<open>>=\<close>, so only with a number or a string.
\<close>

fun py_format :: "json \<Rightarrow> string" where
  "py_format (JInt n) = show_int n"
| "py_format (JBool b) = (if b then ''True'' else ''False'')"
| "py_format (JStr s) = s"
| "py_format JNull = ''None''"
| "py_format (JList xs) = ''[...]''"
| "py_format (JObj kv) = ''{...}''"

section \<open>The environment and the world\<close>

text \<open>
  What the handler uses but does not define is a parameter: the settings
  (\<open>FIRESTORE_POSTS_COLLECTION\<close>, \<open>FIRESTORE_GENERATED_POSTS_COLLECTION\<close>), the
  standard library's \<open>base64.b64decode(..).decode('utf-8')\<close> and \<open>json.loads\<close>
  (\<open>None\<close> where they raise), pydantic's lax reading of a string as an integer,
  the text-generation adapter chosen by \<open>get_ai_adapter\<close> together with its
  \<open>generate_content\<close>, and the rendering of an instant by \<open>isoformat\<close>.
\<close>

record env =
  posts_collection :: string
  generated_posts_collection :: string
  b64decode :: "json \<Rightarrow> string option"
  loads :: "string \<Rightarrow> json option"
  str_as_int :: "string \<Rightarrow> int option"
  generate_content :: "doc \<Rightarrow> error + string"
  isoformat :: "nat \<Rightarrow> string"

text \<open>
  One event is logged for each store call that went through and for each call of the
  text-generation adapter.
\<close>

datatype event =
    Read string string
  | Write string string doc
  | Patch string string doc
  | Generate doc

text \<open>
  The world: the Firestore documents by (collection, document id), the clock, the
  schedule of store faults (one entry is consumed by each store call; \<open>Some m\<close> makes
  that call raise with message \<open>m\<close>; an exhausted schedule means no fault), and the log.
\<close>

record world =
  store :: "string \<times> string \<Rightarrow> doc option"
  clock :: nat
  faults :: "string option list"
  trace :: "event list"

definition now :: "env \<Rightarrow> world \<Rightarrow> string \<times> world" where
  "now e w = (isoformat e (clock w), w\<lparr>clock := Suc (clock w)\<rparr>)"

definition next_fault :: "world \<Rightarrow> string option \<times> world" where
  "next_fault w =
     (case faults w of
        [] \<Rightarrow> (None, w)
      | f # fs \<Rightarrow> (f, w\<lparr>faults := fs\<rparr>))"

definition log_event :: "event \<Rightarrow> world \<Rightarrow> world" where
  "log_event ev w = w\<lparr>trace := trace w @ [ev]\<rparr>"

subsection \<open>services/firestore.py\<close>

text \<open>\<open>doc_ref.update(data)\<close>: the given fields replace or extend those of the document.\<close>

definition merge_fields :: "doc \<Rightarrow> doc \<Rightarrow> doc" where
  "merge_fields old upd = upd @ filter (\<lambda>(k, v). map_of upd k = None) old"

definition save_document :: "string \<Rightarrow> string \<Rightarrow> doc \<Rightarrow> world \<Rightarrow> (error + unit) \<times> world" where
  "save_document c i d w =
     (case next_fault w of
        (Some m, w1) \<Rightarrow> (Inl (PersistenceError m), w1)
      | (None, w1) \<Rightarrow>
          (Inr (), log_event (Write c i d) (w1\<lparr>store := (store w1)((c, i) \<mapsto> d)\<rparr>)))"

definition update_document :: "string \<Rightarrow> string \<Rightarrow> doc \<Rightarrow> world \<Rightarrow> (error + unit) \<times> world" where
  "update_document c i d w =
     (case next_fault w of
        (Some m, w1) \<Rightarrow> (Inl (PersistenceError m), w1)
      | (None, w1) \<Rightarrow>
          (case store w1 (c, i) of
             None \<Rightarrow> (Inl (NotFound (''No document to update: '' @ i)), w1)
           | Some old \<Rightarrow>
               (Inr (), log_event (Patch c i d)
                          (w1\<lparr>store := (store w1)((c, i) \<mapsto> merge_fields old d)\<rparr>))))"

definition get_document :: "string \<Rightarrow> string \<Rightarrow> world \<Rightarrow> (error + doc option) \<times> world" where
  "get_document c i w =
     (case next_fault w of
        (Some m, w1) \<Rightarrow> (Inl (PersistenceError m), w1)
      | (None, w1) \<Rightarrow> (Inr (store w1 (c, i)), log_event (Read c i) w1))"

section \<open>The pydantic models\<close>

text \<open>
  A model instance is a record. Validation reads a JSON value and either builds the
  instance or raises a ValidationError; the text of pydantic's message is not
  reproduced, the error names the model that rejected the input. Keys that a model
  does not declare are ignored. With \<open>populate_by_name\<close> a field is read under its
  alias first and under its own name otherwise.
\<close>

definition by_alias_or_name :: "doc \<Rightarrow> string \<Rightarrow> string \<Rightarrow> json option" where
  "by_alias_or_name d alias name =
     (case map_of d alias of Some v \<Rightarrow> Some v | None \<Rightarrow> map_of d name)"

text \<open>A field annotated \<open>str\<close>: only a string is accepted.\<close>

fun val_str :: "json \<Rightarrow> string option" where
  "val_str (JStr s) = Some s"
| "val_str _ = None"

text \<open>
  A field annotated \<open>int\<close>: an integer, a boolean (read as 0 or 1), or a string that
  the library reads as an integer.
\<close>

fun val_int :: "env \<Rightarrow> json \<Rightarrow> int option" where
  "val_int e (JInt n) = Some n"
| "val_int e (JBool b) = Some (if b then 1 else 0)"
| "val_int e (JStr s) = str_as_int e s"
| "val_int e _ = None"

text \<open>
  A field annotated \<open>Optional[str]\<close> with a default: the outer \<open>None\<close> is a rejected
  input, the inner one is Python's \<open>None\<close>.
\<close>

fun val_opt_str :: "json option \<Rightarrow> string option \<Rightarrow> string option option" where
  "val_opt_str None dflt = Some dflt"
| "val_opt_str (Some JNull) dflt = Some None"
| "val_opt_str (Some (JStr s)) dflt = Some (Some s)"
| "val_opt_str (Some _) dflt = None"

fun json_of_opt_str :: "string option \<Rightarrow> json" where
  "json_of_opt_str None = JNull"
| "json_of_opt_str (Some s) = JStr s"

fun map_option_list :: "('a \<Rightarrow> 'b option) \<Rightarrow> 'a list \<Rightarrow> 'b list option" where
  "map_option_list f [] = Some []"
| "map_option_list f (x # xs) =
     (case f x of
        None \<Rightarrow> None
      | Some y \<Rightarrow> (case map_option_list f xs of None \<Rightarrow> None | Some ys \<Rightarrow> Some (y # ys)))"

text \<open>\<open>Optional[List[str]] = Field(default_factory=list)\<close>.\<close>

fun val_opt_str_list :: "json option \<Rightarrow> json option" where
  "val_opt_str_list None = Some (JList [])"
| "val_opt_str_list (Some JNull) = Some JNull"
| "val_opt_str_list (Some (JList xs)) =
     (case map_option_list val_str xs of None \<Rightarrow> None | Some ss \<Rightarrow> Some (JList xs))"
| "val_opt_str_list (Some _) = None"

subsection \<open>BlogPostSection (services/blog\_generator.py)\<close>

record BlogPostSection =
  subtitle :: string
  section_content :: string

text \<open>\<open>BlogPostSection(**kv)\<close> on the keyword arguments \<open>kv\<close>.\<close>

definition section_of_fields :: "doc \<Rightarrow> BlogPostSection option" where
  "section_of_fields kv =
     (case (map_of kv ''subtitle'', map_of kv ''content'') of
        (Some (JStr s), Some (JStr c)) \<Rightarrow> Some \<lparr>subtitle = s, section_content = c\<rparr>
      | _ \<Rightarrow> None)"

fun val_section :: "json \<Rightarrow> BlogPostSection option" where
  "val_section (JObj kv) = section_of_fields kv"
| "val_section _ = None"

definition dump_section :: "BlogPostSection \<Rightarrow> json" where
  "dump_section s = JObj [(''subtitle'', JStr (subtitle s)), (''content'', JStr (section_content s))]"

fun val_opt_sections :: "json option \<Rightarrow> BlogPostSection list option option" where
  "val_opt_sections None = Some None"
| "val_opt_sections (Some JNull) = Some None"
| "val_opt_sections (Some (JList xs)) =
     (case map_option_list val_section xs of None \<Rightarrow> None | Some ss \<Rightarrow> Some (Some ss))"
| "val_opt_sections (Some _) = None"

fun json_of_opt_sections :: "BlogPostSection list option \<Rightarrow> json" where
  "json_of_opt_sections None = JNull"
| "json_of_opt_sections (Some ss) = JList (map dump_section ss)"

subsection \<open>BlogPostData and BlogPostMessage (controllers/message\_processor.py)\<close>

text \<open>
  \<open>title\<close>, \<open>content\<close>, \<open>keywords\<close> (here \<open>keywords'\<close>) and \<open>focus\<close> are kept as JSON values: validation
  admits \<open>None\<close> or a value of the declared type there, and the regeneration merge later
  assigns to these four attributes whatever the original post holds, which pydantic
  does not validate.
\<close>

record BlogPostData =
  data_id :: string
  title :: json
  content :: json
  keywords' :: json
  focus :: json
  regeneration_instructions :: "string option"
  selected_sections :: "BlogPostSection list option"
  original_content :: "string option"
  feedback :: "string option"

definition validate_BlogPostData :: "json \<Rightarrow> BlogPostData option" where
  "validate_BlogPostData j =
     (case j of
        JObj d \<Rightarrow>
          do {
            i \<leftarrow> Option.bind (map_of d ''id'') val_str;
            t \<leftarrow> val_opt_str (map_of d ''title'') None;
            c \<leftarrow> val_opt_str (map_of d ''content'') None;
            k \<leftarrow> val_opt_str_list (map_of d ''keywords'');
            f \<leftarrow> val_opt_str (map_of d ''focus'') (Some []);
            ri \<leftarrow> val_opt_str (by_alias_or_name d ''regenerationInstructions'' ''regeneration_instructions'') None;
            ss \<leftarrow> val_opt_sections (by_alias_or_name d ''selectedSections'' ''selected_sections'');
            oc \<leftarrow> val_opt_str (by_alias_or_name d ''originalContent'' ''original_content'') None;
            fb \<leftarrow> val_opt_str (map_of d ''feedback'') None;
            Some \<lparr>data_id = i, title = json_of_opt_str t, content = json_of_opt_str c,
                  keywords' = k, focus = json_of_opt_str f, regeneration_instructions = ri,
                  selected_sections = ss, original_content = oc, feedback = fb\<rparr>
          }
      | _ \<Rightarrow> None)"

text \<open>\<open>model_dump()\<close> and \<open>model_dump(by_alias=True)\<close> of a BlogPostData.\<close>

definition dump_BlogPostData :: "bool \<Rightarrow> BlogPostData \<Rightarrow> doc" where
  "dump_BlogPostData alias d =
     [(''id'', JStr (data_id d)),
      (''title'', title d),
      (''content'', content d),
      (''keywords'', keywords' d),
      (''focus'', focus d),
      (if alias then ''regenerationInstructions'' else ''regeneration_instructions'',
         json_of_opt_str (regeneration_instructions d)),
      (if alias then ''selectedSections'' else ''selected_sections'',
         json_of_opt_sections (selected_sections d)),
      (if alias then ''originalContent'' else ''original_content'',
         json_of_opt_str (original_content d)),
      (''feedback'', json_of_opt_str (feedback d))]"

record BlogPostMessage =
  post_id :: string
  action :: string
  timestamp :: int
  data :: BlogPostData

definition validate_BlogPostMessage :: "env \<Rightarrow> json \<Rightarrow> error + BlogPostMessage" where
  "validate_BlogPostMessage e j =
     (case (case j of
              JObj d \<Rightarrow>
                do {
                  p \<leftarrow> Option.bind (by_alias_or_name d ''postId'' ''post_id'') val_str;
                  a \<leftarrow> Option.bind (map_of d ''action'') val_str;
                  ts \<leftarrow> Option.bind (map_of d ''timestamp'') (val_int e);
                  bd \<leftarrow> Option.bind (map_of d ''data'') validate_BlogPostData;
                  Some \<lparr>post_id = p, action = a, timestamp = ts, data = bd\<rparr>
                }
            | _ \<Rightarrow> None) of
        Some m \<Rightarrow> Inr m
      | None \<Rightarrow> Inl (ValidationError ''validation error for BlogPostMessage''))"

subsection \<open>ProcessedBlogPost\<close>

definition action_values :: "string list" where
  "action_values = [''created'', ''updated'', ''deleted'', ''regenerate'']"

text \<open>
  The initial job record: \<open>ProcessedBlogPost(..)\<close> followed by
  \<open>model_dump(by_alias=True)\<close>. The constructor checks \<open>action\<close> against the
  \<open>Literal\<close> of the model; the other arguments are of the declared types already, and
  an instance of BlogPostData passed as \<open>blogPost\<close> is taken as it is.
\<close>

definition ProcessedBlogPost :: "BlogPostMessage \<Rightarrow> string \<Rightarrow> error + doc" where
  "ProcessedBlogPost m processed_at =
     (if action m \<in> set action_values then
        Inr [(''postId'', JStr (post_id m)),
             (''action'', JStr (action m)),
             (''timestamp'', JInt (timestamp m)),
             (''status'', JStr ''processing''),
             (''blogPost'', JObj (dump_BlogPostData True (data m))),
             (''processedAt'', JStr processed_at),
             (''completedAt'', JNull),
             (''errorAt'', JNull),
             (''generatedContent'', JNull),
             (''sections'', JNull),
             (''error'', JNull),
             (''retry_count'', JInt 0),
             (''max_retries'', JInt 3)]
      else Inl (ValidationError ''validation error for ProcessedBlogPost''))"

section \<open>process\_message: receiving the message\<close>

text \<open>
  Lines 68 to 97. A message with a \<open>data\<close> key is an envelope: its \<open>data\<close> is
  base64-decoded and parsed as JSON; otherwise the message itself is the payload.
\<close>

definition decode_message :: "env \<Rightarrow> doc \<Rightarrow> error + json" where
  "decode_message e message_data =
     (case map_of message_data ''data'' of
        Some v \<Rightarrow>
          (case b64decode e v of
             None \<Rightarrow> Inl (DecodeError ''cannot base64-decode the message data'')
           | Some decoded_data \<Rightarrow>
               (case loads e decoded_data of
                  None \<Rightarrow> Inl (DecodeError ''message data is not JSON'')
                | Some payload \<Rightarrow> Inr payload))
      | None \<Rightarrow> Inr (JObj message_data))"

text \<open>
  The merge for \<open>action == 'regenerate'\<close>: each of the four attributes becomes
  \<open>original_post.get(key, current value)\<close>.
\<close>

definition merge_original :: "doc \<Rightarrow> BlogPostData \<Rightarrow> BlogPostData" where
  "merge_original original_post d =
     d\<lparr>title := dget original_post ''title'' (title d),
       content := dget original_post ''content'' (content d),
       keywords' := dget original_post ''keywords'' (keywords' d),
       focus := dget original_post ''focus'' (focus d)\<rparr>"

definition receive_message :: "env \<Rightarrow> doc \<Rightarrow> world \<Rightarrow> (error + BlogPostMessage) \<times> world" where
  "receive_message e message_data w =
     (case decode_message e message_data of
        Inl x \<Rightarrow> (Inl x, w)
      | Inr payload \<Rightarrow>
          (case validate_BlogPostMessage e payload of
             Inl x \<Rightarrow> (Inl x, w)
           | Inr m \<Rightarrow>
               if action m = ''regenerate'' then
                 (case get_document (posts_collection e) (post_id m) w of
                    (Inl x, w1) \<Rightarrow> (Inl x, w1)
                  | (Inr original_post, w1) \<Rightarrow>
                      (case original_post of
                         Some (f # fs) \<Rightarrow>
                           (Inr (m\<lparr>data := merge_original (f # fs) (data m)\<rparr>), w1)
                       | _ \<Rightarrow>
                           (Inl (ValueError (''Original post not found for regeneration: '' @ post_id m)), w1)))
               else (Inr m, w)))"

section \<open>process\_message: the job record\<close>

text \<open>
  Lines 99 to 155. The result is \<open>Some post_id\<close> where the handler returns at once and
  \<open>None\<close> where it goes on to generation. A missing document and an empty one both make
  \<open>if existing_record:\<close> false.
\<close>

definition existing_record_stage ::
  "env \<Rightarrow> BlogPostMessage \<Rightarrow> doc \<Rightarrow> world \<Rightarrow> (error + string option) \<times> world" where
  "existing_record_stage e m existing_record w =
     (let retry_count = dget existing_record ''retry_count'' (JInt 0);
          max_retries = dget existing_record ''max_retries'' (JInt 3);
          current_status = dget existing_record ''status'' (JStr ''processing'')
      in if current_status = JStr ''failed_permanently'' then (Inr (Some (post_id m)), w)
         else
           (case py_ge retry_count max_retries of
              Inl x \<Rightarrow> (Inl x, w)
            | Inr True \<Rightarrow>
                (case now e w of
                   (t, w1) \<Rightarrow>
                     (case update_document ''posts'' (post_id m)
                             [(''status'', JStr ''failed_permanently''),
                              (''errorAt'', JStr t),
                              (''error'', JStr (''Exceeded maximum retry attempts ('' @ py_format max_retries @ '')'')),
                              (''retry_count'', retry_count)] w1 of
                        (Inl x, w2) \<Rightarrow> (Inl x, w2)
                      | (Inr u, w2) \<Rightarrow> (Inr (Some (post_id m)), w2)))
            | Inr False \<Rightarrow>
                (case py_incr retry_count of
                   Inl x \<Rightarrow> (Inl x, w)
                 | Inr retry_count' \<Rightarrow>
                     (case now e w of
                        (t, w1) \<Rightarrow>
                          (case update_document ''posts'' (post_id m)
                                  [(''status'', JStr ''processing''),
                                   (''retry_count'', retry_count'),
                                   (''processedAt'', JStr t)] w1 of
                             (Inl x, w2) \<Rightarrow> (Inl x, w2)
                           | (Inr u, w2) \<Rightarrow> (Inr None, w2))))))"

definition new_record_stage ::
  "env \<Rightarrow> BlogPostMessage \<Rightarrow> world \<Rightarrow> (error + string option) \<times> world" where
  "new_record_stage e m w =
     (case now e w of
        (t, w1) \<Rightarrow>
          (case ProcessedBlogPost m t of
             Inl x \<Rightarrow> (Inl x, w1)
           | Inr job_record \<Rightarrow>
               (case save_document ''posts'' (post_id m) job_record w1 of
                  (Inl x, w2) \<Rightarrow> (Inl x, w2)
                | (Inr u, w2) \<Rightarrow> (Inr None, w2))))"

definition job_stage ::
  "env \<Rightarrow> BlogPostMessage \<Rightarrow> world \<Rightarrow> (error + string option) \<times> world" where
  "job_stage e m w =
     (case get_document ''posts'' (post_id m) w of
        (Inl x, w1) \<Rightarrow> (Inl x, w1)
      | (Inr existing_record, w1) \<Rightarrow>
          (case existing_record of
             Some (f # fs) \<Rightarrow> existing_record_stage e m (f # fs) w1
           | _ \<Rightarrow> new_record_stage e m w1))"

section \<open>generate\_blog\_post (services/blog\_generator.py)\<close>

record BlogGenerationOutput =
  original_post_id :: string
  out_title :: string
  out_original_content :: string
  generated_content :: string
  generated_at :: string
  generated_post_id :: string
  status :: string
  out_error :: "string option"

text \<open>\<open>data[k] = v\<close> on a dict.\<close>

definition dset :: "doc \<Rightarrow> string \<Rightarrow> json \<Rightarrow> doc" where
  "dset d k v = (k, v) # filter (\<lambda>(k', v'). k' \<noteq> k) d"

fun val_str_list :: "json \<Rightarrow> string list option" where
  "val_str_list (JList xs) = map_option_list val_str xs"
| "val_str_list _ = None"

text \<open>
  \<open>[BlogPostSection(**section) for section in content_json['sections']]\<close>: the value
  under \<open>sections\<close> is iterated, and each item is unpacked as keyword arguments. An
  item that is not an object cannot be unpacked (TypeError), an object without two
  string fields \<open>subtitle\<close> and \<open>content\<close> is rejected by the model (ValidationError),
  and a value that is neither an array, a string nor an object cannot be iterated.
\<close>

fun section_of_item :: "json \<Rightarrow> error + BlogPostSection" where
  "section_of_item (JObj kv) =
     (case section_of_fields kv of
        None \<Rightarrow> Inl (ValidationError ''validation error for BlogPostSection'')
      | Some s \<Rightarrow> Inr s)"
| "section_of_item _ = Inl (TypeError ''argument after ** must be a mapping'')"

fun map_result :: "('a \<Rightarrow> error + 'b) \<Rightarrow> 'a list \<Rightarrow> error + 'b list" where
  "map_result f [] = Inr []"
| "map_result f (x # xs) =
     (case f x of
        Inl err \<Rightarrow> Inl err
      | Inr y \<Rightarrow> (case map_result f xs of Inl err \<Rightarrow> Inl err | Inr ys \<Rightarrow> Inr (y # ys)))"

fun sections_of :: "json \<Rightarrow> error + BlogPostSection list" where
  "sections_of (JList xs) = map_result section_of_item xs"
| "sections_of (JStr s) =
     (if s = [] then Inr [] else Inl (TypeError ''argument after ** must be a mapping''))"
| "sections_of (JObj kv) =
     (if kv = [] then Inr [] else Inl (TypeError ''argument after ** must be a mapping''))"
| "sections_of _ = Inl (TypeError ''object is not iterable'')"

text \<open>
  The parse of the generated text, written twice in the source (lines 95 to 105 of
  blog\_generator.py and lines 168 to 176 of message\_processor.py): only the
  JSONDecodeError of \<open>json.loads\<close> is caught.
\<close>

definition parse_sections :: "env \<Rightarrow> string \<Rightarrow> error + BlogPostSection list option" where
  "parse_sections e text =
     (case loads e text of
        None \<Rightarrow> Inr None
      | Some (JObj kv) \<Rightarrow>
          (case map_of kv ''sections'' of
             None \<Rightarrow> Inr None
           | Some v \<Rightarrow> (case sections_of v of Inl x \<Rightarrow> Inl x | Inr ss \<Rightarrow> Inr (Some ss)))
      | Some _ \<Rightarrow> Inr None)"

text \<open>\<open>GeneratedPost(..)\<close> followed by \<open>model_dump(by_alias=True)\<close>.\<close>

definition GeneratedPost ::
  "string \<Rightarrow> doc \<Rightarrow> string \<Rightarrow> BlogPostSection list option \<Rightarrow> string \<Rightarrow> error + doc" where
  "GeneratedPost pid data' text sections gen_at =
     (case (val_str (dget data' ''title'' (JStr [])),
            val_str (dget data' ''originalContent'' (JStr [])),
            val_str_list (dget data' ''keywords'' (JList [])),
            val_str (dget data' ''focus'' (JStr []))) of
        (Some t, Some oc, Some ks, Some f) \<Rightarrow>
          Inr [(''original_post_id'', JStr pid),
               (''title'', JStr t),
               (''originalContent'', JStr oc),
               (''keywords'', JList (map JStr ks)),
               (''focus'', JStr f),
               (''generatedContent'', JStr text),
               (''sections'', json_of_opt_sections sections),
               (''generatedAt'', JStr gen_at),
               (''status'', JStr ''generated''),
               (''previousGeneration'', JNull)]
      | _ \<Rightarrow> Inl (ValidationError ''validation error for GeneratedPost''))"

text \<open>Lines 120 to 126: the snapshot of the previous generation.\<close>

definition with_previous_generation :: "doc \<Rightarrow> doc \<Rightarrow> error + doc" where
  "with_previous_generation data' generated_post =
     (case map_of data' ''previousGeneration'' of
        None \<Rightarrow> Inr generated_post
      | Some (JObj pg) \<Rightarrow>
          Inr (map (\<lambda>(k, v). if k = ''previousGeneration''
                              then (k, JObj [(''content'', dget pg ''content'' (JStr [])),
                                             (''generated_at'', dget pg ''generatedAt'' (JStr []))])
                              else (k, v)) generated_post)
      | Some _ \<Rightarrow> Inl (AttributeError ''object has no attribute get''))"

text \<open>The body of the \<open>try\<close>, from the adapter call to the returned result.\<close>

definition generate_body ::
  "env \<Rightarrow> string \<Rightarrow> doc \<Rightarrow> world \<Rightarrow> (error + BlogGenerationOutput) \<times> world" where
  "generate_body e pid data' w =
     (case generate_content e data' of
        Inl x \<Rightarrow> (Inl x, log_event (Generate data') w)
      | Inr text \<Rightarrow>
          (let w1 = log_event (Generate data') w in
           case parse_sections e text of
             Inl x \<Rightarrow> (Inl x, w1)
           | Inr sections \<Rightarrow>
               (case now e w1 of
                  (t, w2) \<Rightarrow>
                    (case GeneratedPost pid data' text sections t of
                       Inl x \<Rightarrow> (Inl x, w2)
                     | Inr gp \<Rightarrow>
                         (case with_previous_generation data' gp of
                            Inl x \<Rightarrow> (Inl x, w2)
                          | Inr generated_post \<Rightarrow>
                              (case save_document (generated_posts_collection e) pid generated_post w2 of
                                 (Inl x, w3) \<Rightarrow> (Inl x, w3)
                               | (Inr u, w3) \<Rightarrow>
                                   (case now e w3 of
                                      (t', w4) \<Rightarrow>
                                        (case (val_str (dget data' ''title'' (JStr [])),
                                               val_str (dget data' ''originalContent'' (JStr []))) of
                                           (Some ti, Some oc) \<Rightarrow>
                                             (Inr \<lparr>original_post_id = pid, out_title = ti,
                                                   out_original_content = oc, generated_content = text,
                                                   generated_at = t', generated_post_id = pid,
                                                   status = ''generated'', out_error = None\<rparr>, w4)
                                         | _ \<Rightarrow>
                                             (Inl (ValidationError ''validation error for BlogGenerationOutput''), w4)))))))))"

text \<open>
  generate\_blog\_post: the fallback title, the body, and the \<open>except Exception\<close>
  handler, which builds the error result from \<open>data.get('title', ..)\<close>. The
  constructor of the result validates \<open>title: str\<close>, so the handler itself raises when
  the title is not a string.
\<close>

definition generate_blog_post ::
  "env \<Rightarrow> string \<Rightarrow> doc \<Rightarrow> world \<Rightarrow> (error + BlogGenerationOutput) \<times> world" where
  "generate_blog_post e pid data0 w =
     (case (if \<not> truthy (dget data0 ''title'' JNull)
            then (case now e w of
                    (t, w1) \<Rightarrow> (dset data0 ''title'' (JStr (''Generated content for '' @ pid @ '' at '' @ t)), w1))
            else (data0, w)) of
        (data', w1) \<Rightarrow>
          (case generate_body e pid data' w1 of
             (Inr r, w2) \<Rightarrow> (Inr r, w2)
           | (Inl x, w2) \<Rightarrow>
               (case now e w2 of
                  (t, w3) \<Rightarrow>
                    (case val_str (dget data' ''title'' (JStr (''Error generating content for '' @ pid))) of
                       Some ti \<Rightarrow>
                         (Inr \<lparr>original_post_id = pid, out_title = ti, out_original_content = [],
                               generated_content = [], generated_at = t, generated_post_id = [],
                               status = ''error'', out_error = Some (err_str x)\<rparr>, w3)
                     | None \<Rightarrow>
                         (Inl (ValidationError ''validation error for BlogGenerationOutput''), w3)))))"

section \<open>process\_message: generation and the failure path\<close>

text \<open>
  \<open>datetime.fromtimestamp(timestamp / 1000, tz=timezone.utc)\<close> raises outside the
  years 1 to 9999.
\<close>

definition fromtimestamp_ok :: "int \<Rightarrow> bool" where
  "fromtimestamp_ok ts = (- 62135596800000 \<le> ts \<and> ts \<le> 253402300799999)"

text \<open>Lines 157 to 198, the body of the second \<open>try\<close>.\<close>

definition generation_stage ::
  "env \<Rightarrow> BlogPostMessage \<Rightarrow> world \<Rightarrow> (error + unit) \<times> world" where
  "generation_stage e m w =
     (if \<not> fromtimestamp_ok (timestamp m) then (Inl (ValueError ''timestamp out of range''), w)
      else
        (case generate_blog_post e (post_id m) (dump_BlogPostData False (data m)) w of
           (Inl x, w1) \<Rightarrow> (Inl x, w1)
         | (Inr generation_result, w1) \<Rightarrow>
             (case parse_sections e (generated_content generation_result) of
                Inl x \<Rightarrow> (Inl x, w1)
              | Inr sections \<Rightarrow>
                  if status generation_result = ''generated'' then
                    (case now e w1 of
                       (t, w2) \<Rightarrow>
                         (case update_document ''posts'' (post_id m)
                                 [(''status'', JStr ''completed''),
                                  (''completedAt'', JStr t),
                                  (''generatedPostId'', JStr (generated_post_id generation_result)),
                                  (''generatedContent'', JStr (generated_content generation_result)),
                                  (''sections'',
                                     (case sections of
                                        Some (s # ss) \<Rightarrow> JList (map dump_section (s # ss))
                                      | _ \<Rightarrow> JNull))] w2 of
                            (Inl x, w3) \<Rightarrow> (Inl x, w3)
                          | (Inr u, w3) \<Rightarrow> (Inr (), w3)))
                  else
                    (let msg = (case out_error generation_result of
                                  Some (c # cs) \<Rightarrow> c # cs
                                | _ \<Rightarrow> ''Unknown error during generation'')
                     in case now e w1 of
                          (t, w2) \<Rightarrow>
                            (case update_document ''posts'' (post_id m)
                                    [(''status'', JStr ''error''),
                                     (''errorAt'', JStr t),
                                     (''error'', JStr msg)] w2 of
                               (Inl x, w3) \<Rightarrow> (Inl x, w3)
                             | (Inr u, w3) \<Rightarrow> (Inl (GenericException msg), w3))))))"

text \<open>
  Lines 200 to 237, the \<open>except Exception as e\<close> of that \<open>try\<close>. A failure of the
  last update is logged and dropped. The closing test \<open>current_retry_count < max_retries\<close>
  is the negation of the \<open>>=\<close> that chose the payload.
\<close>

definition failure_handler ::
  "env \<Rightarrow> string \<Rightarrow> error \<Rightarrow> world \<Rightarrow> (error + string option) \<times> world" where
  "failure_handler e pid x w =
     (case get_document ''posts'' pid w of
        (Inl y, w1) \<Rightarrow> (Inl y, w1)
      | (Inr current_record, w1) \<Rightarrow>
          (let r = (case current_record of Some (f # fs) \<Rightarrow> f # fs | _ \<Rightarrow> []);
               current_retry_count = dget r ''retry_count'' (JInt 0);
               max_retries = dget r ''max_retries'' (JInt 3)
           in case py_ge current_retry_count max_retries of
                Inl y \<Rightarrow> (Inl y, w1)
              | Inr exceeded \<Rightarrow>
                  (case now e w1 of
                     (t, w2) \<Rightarrow>
                       (let error_payload =
                              (if exceeded then
                                 [(''status'', JStr ''failed_permanently''),
                                  (''errorAt'', JStr t),
                                  (''error'', JStr (''Permanently failed after '' @ py_format max_retries
                                                     @ '' retries. Last error: '' @ err_str x)),
                                  (''retry_count'', current_retry_count)]
                               else
                                 [(''status'', JStr ''error''),
                                  (''errorAt'', JStr t),
                                  (''error'', JStr (err_str x)),
                                  (''retry_count'', current_retry_count)]);
                            w3 = snd (update_document ''posts'' pid error_payload w2)
                        in if exceeded then (Inr (Some pid), w3) else (Inl x, w3)))))"

text \<open>
  The handler after the message is accepted. It returns \<open>post_id\<close> on its three early
  returns and falls off the end (\<open>None\<close>) after a completed generation.
\<close>

definition run_job :: "env \<Rightarrow> BlogPostMessage \<Rightarrow> world \<Rightarrow> (error + string option) \<times> world" where
  "run_job e m w =
     (case job_stage e m w of
        (Inl x, w2) \<Rightarrow> (Inl x, w2)
      | (Inr (Some pid), w2) \<Rightarrow> (Inr (Some pid), w2)
      | (Inr None, w2) \<Rightarrow>
          (case generation_stage e m w2 of
             (Inr u, w3) \<Rightarrow> (Inr None, w3)
           | (Inl x, w3) \<Rightarrow> failure_handler e (post_id m) x w3))"

definition process_message :: "env \<Rightarrow> doc \<Rightarrow> world \<Rightarrow> (error + string option) \<times> world" where
  "process_message e message_data w =
     (case receive_message e message_data w of
        (Inl x, w1) \<Rightarrow> (Inl x, w1)
      | (Inr m, w1) \<Rightarrow> run_job e m w1)"

section \<open>Notions used by the statements\<close>



text \<open>
  The look-up of the original post that a \<open>regenerate\<close> message causes, as log entries,
  and whether that look-up finds a non-empty document.
\<close>

definition lookup_reads :: "env \<Rightarrow> BlogPostMessage \<Rightarrow> event list" where
  "lookup_reads e m =
     (if action m = ''regenerate'' then [Read (posts_collection e) (post_id m)] else [])"

definition original_found :: "env \<Rightarrow> world \<Rightarrow> BlogPostMessage \<Rightarrow> bool" where
  "original_found e w m =
     (case store w (posts_collection e, post_id m) of Some (f # fs) \<Rightarrow> True | _ \<Rightarrow> False)"


fun is_generate :: "event \<Rightarrow> bool" where
  "is_generate (Generate d) = True"
| "is_generate _ = False"

section \<open>Concrete scenarios\<close>

text \<open>
  A small environment for evaluating the handler: the envelope carries a name, which
  the toy \<open>loads\<close> maps to a payload; the adapter answers with the name of a generated
  text.
\<close>

definition sample_brief :: doc where
  "sample_brief = [(''id'', JStr ''p1''), (''title'', JStr ''Hello''),
                   (''keywords'', JList [JStr ''a'', JStr ''b'']), (''focus'', JStr ''f'')]"

definition brief_without_id :: doc where
  "brief_without_id = [(''title'', JStr ''Hello''),
                       (''keywords'', JList [JStr ''a'', JStr ''b'']), (''focus'', JStr ''f'')]"

definition feedback_brief :: doc where
  "feedback_brief = [(''id'', JStr ''p1''), (''feedback'', JStr ''shorter'')]"

definition sample_payload :: "string \<Rightarrow> doc \<Rightarrow> doc" where
  "sample_payload a d = [(''postId'', JStr ''p1''), (''action'', JStr a),
     (''timestamp'', JInt 1700000000000), (''data'', JObj d)]"

definition structured_text :: json where
  "structured_text =
     JObj [(''title'', JStr ''Hello''),
           (''sections'', JList [JObj [(''subtitle'', JStr ''S1''), (''content'', JStr ''C1'')]])]"

definition half_section_text :: json where
  "half_section_text = JObj [(''sections'', JList [JObj [(''subtitle'', JStr ''S1'')]])]"

definition sample_loads :: "string \<Rightarrow> json option" where
  "sample_loads s =
     (if s = ''created'' then Some (JObj (sample_payload ''created'' sample_brief))
      else if s = ''regenerate'' then Some (JObj (sample_payload ''regenerate'' sample_brief))
      else if s = ''regenerate-feedback'' then Some (JObj (sample_payload ''regenerate'' feedback_brief))
      else if s = ''archive'' then Some (JObj (sample_payload ''archive'' sample_brief))
      else if s = ''no-id'' then Some (JObj (sample_payload ''created'' brief_without_id))
      else if s = ''no-timestamp'' then
        Some (JObj [(''postId'', JStr ''p1''), (''action'', JStr ''created''), (''data'', JObj sample_brief)])
      else if s = ''structured'' then Some structured_text
      else if s = ''half-section'' then Some half_section_text
      else None)"

definition sample_env :: env where
  "sample_env =
     \<lparr>posts_collection = ''posts'', generated_posts_collection = ''generated_posts'',
      b64decode = (\<lambda>j. case j of JStr s \<Rightarrow> Some s | _ \<Rightarrow> None),
      loads = sample_loads,
      str_as_int = (\<lambda>s. None),
      generate_content = (\<lambda>d. Inr ''structured''),
      isoformat = (\<lambda>n. ''T'' @ show_nat n)\<rparr>"

text \<open>The same with the original posts kept in a collection of their own.\<close>

definition source_env :: env where
  "source_env = sample_env\<lparr>posts_collection := ''source_posts''\<rparr>"

definition envelope :: "string \<Rightarrow> doc" where
  "envelope s = [(''data'', JStr s)]"

definition empty_world :: world where
  "empty_world = \<lparr>store = (\<lambda>k. None), clock = 0, faults = [], trace = []\<rparr>"

text \<open>A job record for post \<open>p1\<close> with the given status and counters.\<close>

definition job_record :: "string \<Rightarrow> int \<Rightarrow> int \<Rightarrow> doc" where
  "job_record st rc mx =
     [(''postId'', JStr ''p1''), (''status'', JStr st),
      (''retry_count'', JInt rc), (''max_retries'', JInt mx)]"

definition job_world :: "string \<Rightarrow> int \<Rightarrow> int \<Rightarrow> world" where
  "job_world st rc mx =
     \<lparr>store = (\<lambda>k. None)((''posts'', ''p1'') \<mapsto> job_record st rc mx),
      clock = 0, faults = [], trace = []\<rparr>"

definition archive_message :: BlogPostMessage where
  "archive_message =
     \<lparr>post_id = ''p1'', action = ''archive'', timestamp = 1700000000000,
      data = \<lparr>data_id = ''p1'', title = JStr ''Hello'', content = JNull,
               keywords' = JList [JStr ''a'', JStr ''b''], focus = JStr ''f'',
               regeneration_instructions = None, selected_sections = None,
               original_content = None, feedback = None\<rparr>\<rparr>"

definition regenerate_message :: BlogPostMessage where
  "regenerate_message = archive_message\<lparr>action := ''regenerate''\<rparr>"

text \<open>An original post in the source collection, and a world that holds only it.\<close>

definition original_post :: doc where
  "original_post = [(''title'', JStr ''T''), (''content'', JStr ''C'')]"

definition original_world :: world where
  "original_world = empty_world\<lparr>store := (\<lambda>k. None)((''source_posts'', ''p1'') \<mapsto> original_post)\<rparr>"

text \<open>The titles handed to the text-generation adapter, in order.\<close>

fun generated_titles :: "event list \<Rightarrow> json list" where
  "generated_titles [] = []"
| "generated_titles (Generate d # evs) = dget d ''title'' JNull # generated_titles evs"
| "generated_titles (ev # evs) = generated_titles evs"

definition created_message :: BlogPostMessage where
  "created_message = archive_message\<lparr>action := ''created''\<rparr>"

section \<open>Basic facts about the store and the stages\<close>

lemma log_event_simps [simp]:
  "store (log_event ev w) = store w"
  "clock (log_event ev w) = clock w"
  "faults (log_event ev w) = faults w"
  "trace (log_event ev w) = trace w @ [ev]"
  by (simp_all add: log_event_def)

lemma get_document_ok:
  "faults w = [] \<Longrightarrow> get_document c i w = (Inr (store w (c, i)), log_event (Read c i) w)"
  by (simp add: get_document_def next_fault_def)

lemma save_document_ok:
  "faults w = [] \<Longrightarrow>
   save_document c i d w = (Inr (), log_event (Write c i d) (w\<lparr>store := (store w)((c, i) \<mapsto> d)\<rparr>))"
  by (simp add: save_document_def next_fault_def)

lemma update_document_ok:
  "faults w = [] \<Longrightarrow> store w (c, i) = Some old \<Longrightarrow>
   update_document c i d w =
     (Inr (), log_event (Patch c i d) (w\<lparr>store := (store w)((c, i) \<mapsto> merge_fields old d)\<rparr>))"
  by (simp add: update_document_def next_fault_def)

lemma decode_sample:
  "sample_loads s = Some j \<Longrightarrow> decode_message sample_env (envelope s) = Inr j"
  by (simp add: decode_message_def sample_env_def envelope_def)

lemma validate_without_id:
  assumes "map_of p ''data'' = Some (JObj d)" and "map_of d ''id'' = None"
  shows "validate_BlogPostMessage e (JObj p) =
           Inl (ValidationError ''validation error for BlogPostMessage'')"
  using assms
  by (simp add: validate_BlogPostMessage_def validate_BlogPostData_def
           split: option.splits Option.bind_splits)



lemma receive_plain:
  "decode_message e md = Inr payload \<Longrightarrow> validate_BlogPostMessage e payload = Inr m \<Longrightarrow>
   action m \<noteq> ''regenerate'' \<Longrightarrow> receive_message e md w = (Inr m, w)"
  by (simp add: receive_message_def)


section \<open>Validation of the inbound message\<close>

text \<open>
  C10. The nested \<open>data\<close> object must itself carry a string field \<open>id\<close>: a payload
  whose \<open>data\<close> object has no \<open>id\<close> is rejected by the validation of the message,
  whatever its other fields are, and the ValidationError reaches the caller with the
  world untouched (nothing read, written or generated).
\<close>

theorem data_without_id_rejected:
  assumes "decode_message e message_data = Inr (JObj p)"
    and "map_of p ''data'' = Some (JObj d)"
    and "map_of d ''id'' = None"
  shows "process_message e message_data w =
           (Inl (ValidationError ''validation error for BlogPostMessage''), w)"
  using assms validate_without_id [OF assms(2,3)]
  by (simp add: process_message_def receive_message_def)

theorem data_without_id_rejected_witness:
  "decode_message sample_env (envelope ''no-id'') =
     Inr (JObj (sample_payload ''created'' brief_without_id))
   \<and> map_of (sample_payload ''created'' brief_without_id) ''data'' = Some (JObj brief_without_id)
   \<and> map_of brief_without_id ''id'' = None
   \<and> process_message sample_env (envelope ''no-id'') empty_world =
       (Inl (ValidationError ''validation error for BlogPostMessage''), empty_world)"
proof -
  have d: "decode_message sample_env (envelope ''no-id'') =
             Inr (JObj (sample_payload ''created'' brief_without_id))"
    by (rule decode_sample) (simp add: sample_loads_def)
  have m: "map_of (sample_payload ''created'' brief_without_id) ''data'' = Some (JObj brief_without_id)"
    by (simp add: sample_payload_def)
  have i: "map_of brief_without_id ''id'' = None"
    by (simp add: brief_without_id_def)
  from data_without_id_rejected [OF d m i, of empty_world] d m i show ?thesis
    by simp
qed




section \<open>The regeneration merge\<close>

lemma receive_regenerate:
  assumes "decode_message e md = Inr payload" and "validate_BlogPostMessage e payload = Inr m"
    and "action m = ''regenerate''" and "faults w = []"
  shows "receive_message e md w =
           (case store w (posts_collection e, post_id m) of
              Some (f # fs) \<Rightarrow> (Inr (m\<lparr>data := merge_original (f # fs) (data m)\<rparr>),
                                 log_event (Read (posts_collection e) (post_id m)) w)
            | _ \<Rightarrow> (Inl (ValueError (''Original post not found for regeneration: '' @ post_id m)),
                     log_event (Read (posts_collection e) (post_id m)) w))"
  using assms by (simp add: receive_message_def get_document_ok)

text \<open>
  C4, as the code has it. For a \<open>regenerate\<close> message whose original post is found,
  the handler goes on with a brief in which each of title, content, keywords and focus
  is the value of the original post wherever the original post has that key, whatever
  the incoming brief holds there; the incoming value stays only where the original
  post lacks the key. The other fields of the brief (id, regeneration instructions,
  selected sections, original content, feedback) are those of the incoming brief.
\<close>

theorem regeneration_merge:
  assumes "decode_message e message_data = Inr payload"
    and "validate_BlogPostMessage e payload = Inr m"
    and "action m = ''regenerate''"
    and "faults w = []"
    and "store w (posts_collection e, post_id m) = Some original"
    and "original \<noteq> []"
  shows "process_message e message_data w =
           run_job e (m\<lparr>data := merge_original original (data m)\<rparr>)
                   (log_event (Read (posts_collection e) (post_id m)) w)
       \<and> title (merge_original original (data m)) =
           (case map_of original ''title'' of Some v \<Rightarrow> v | None \<Rightarrow> title (data m))
       \<and> content (merge_original original (data m)) =
           (case map_of original ''content'' of Some v \<Rightarrow> v | None \<Rightarrow> content (data m))
       \<and> keywords' (merge_original original (data m)) =
           (case map_of original ''keywords'' of Some v \<Rightarrow> v | None \<Rightarrow> keywords' (data m))
       \<and> focus (merge_original original (data m)) =
           (case map_of original ''focus'' of Some v \<Rightarrow> v | None \<Rightarrow> focus (data m))
       \<and> data_id (merge_original original (data m)) = data_id (data m)
       \<and> regeneration_instructions (merge_original original (data m)) = regeneration_instructions (data m)
       \<and> selected_sections (merge_original original (data m)) = selected_sections (data m)
       \<and> original_content (merge_original original (data m)) = original_content (data m)
       \<and> feedback (merge_original original (data m)) = feedback (data m)"
proof -
  obtain f fs where o: "original = f # fs" using assms(6) by (cases original) auto
  have "receive_message e message_data w =
          (Inr (m\<lparr>data := merge_original original (data m)\<rparr>),
           log_event (Read (posts_collection e) (post_id m)) w)"
    using receive_regenerate [OF assms(1-4)] assms(5) o by simp
  then show ?thesis
    by (simp add: process_message_def merge_original_def dget_def)
qed

theorem regeneration_merge_witness:
  "decode_message source_env (envelope ''regenerate'') = Inr (JObj (sample_payload ''regenerate'' sample_brief))
   \<and> validate_BlogPostMessage source_env (JObj (sample_payload ''regenerate'' sample_brief)) = Inr regenerate_message
   \<and> action regenerate_message = ''regenerate''
   \<and> faults original_world = []
   \<and> store original_world (posts_collection source_env, post_id regenerate_message) = Some original_post
   \<and> original_post \<noteq> []
   \<and> title (merge_original original_post (data regenerate_message)) = JStr ''T''
   \<and> focus (merge_original original_post (data regenerate_message)) = JStr ''f''"
proof -
  have d: "decode_message source_env (envelope ''regenerate'') =
             Inr (JObj (sample_payload ''regenerate'' sample_brief))"
    by (simp add: decode_message_def source_env_def sample_env_def envelope_def sample_loads_def)
  have v: "validate_BlogPostMessage source_env (JObj (sample_payload ''regenerate'' sample_brief)) =
             Inr regenerate_message"
    by (simp add: validate_BlogPostMessage_def validate_BlogPostData_def sample_payload_def
        sample_brief_def archive_message_def regenerate_message_def by_alias_or_name_def)
  have a: "action regenerate_message = ''regenerate''"
    by (simp add: regenerate_message_def)
  have f: "faults original_world = []" by (simp add: original_world_def empty_world_def)
  have s: "store original_world (posts_collection source_env, post_id regenerate_message) =
             Some original_post"
    by (simp add: original_world_def empty_world_def source_env_def regenerate_message_def
        archive_message_def)
  have n: "original_post \<noteq> []" by (simp add: original_post_def)
  from regeneration_merge [OF d v a f s n] d v a f s n show ?thesis
    by (simp add: original_post_def regenerate_message_def archive_message_def)
qed

text \<open>
  The claim as stated fails: the incoming brief carries the title \<open>Hello\<close>, the
  original post the title \<open>T\<close>, and the brief the handler goes on with, and hands to
  the adapter, has the title \<open>T\<close>.
\<close>

theorem incoming_title_replaced_counterexample:
  "map_of sample_brief ''title'' = Some (JStr ''Hello'')
   \<and> fst (receive_message source_env (envelope ''regenerate'') original_world) =
       Inr (regenerate_message\<lparr>data := (data regenerate_message)\<lparr>title := JStr ''T'', content := JStr ''C''\<rparr>\<rparr>)
   \<and> generated_titles (trace (snd (process_message source_env (envelope ''regenerate'') original_world)))
       = [JStr ''T'']"
  by code_simp

section \<open>generate\_blog\_post and its error result\<close>

text \<open>
  C7. generate\_blog\_post is to return a result tagged \<open>generated\<close> or \<open>error\<close> for
  every input. For a brief whose title is a non-empty array the constructor of the
  GeneratedPost fails, the \<open>except\<close> handler builds the error result with the same
  title, and that constructor fails in turn: the ValidationError leaves the function.
\<close>

theorem generate_blog_post_raises:
  "fst (generate_blog_post sample_env ''p1''
          (dump_BlogPostData False ((data archive_message)\<lparr>title := JList [JStr ''x'']\<rparr>)) empty_world)
     = Inl (ValidationError ''validation error for BlogGenerationOutput'')"
  by code_simp

section \<open>The job record: terminal state and retry ceiling\<close>

lemma validate_sample:
  "validate_BlogPostMessage e (JObj (sample_payload a sample_brief)) = Inr (archive_message\<lparr>action := a\<rparr>)"
  by (simp add: validate_BlogPostMessage_def validate_BlogPostData_def sample_payload_def
        sample_brief_def archive_message_def by_alias_or_name_def)

lemma decode_source:
  "sample_loads s = Some j \<Longrightarrow> decode_message source_env (envelope s) = Inr j"
  by (simp add: decode_message_def source_env_def sample_env_def envelope_def)

lemma receive_accepts:
  assumes "decode_message e md = Inr payload" and "validate_BlogPostMessage e payload = Inr m"
    and "faults w = []" and "action m = ''regenerate'' \<longrightarrow> original_found e w m"
  shows "\<exists>m'. receive_message e md w = (Inr m', w\<lparr>trace := trace w @ lookup_reads e m\<rparr>)
              \<and> post_id m' = post_id m \<and> action m' = action m \<and> timestamp m' = timestamp m"
proof (cases "action m = ''regenerate''")
  case True
  with assms(4) obtain f fs where "store w (posts_collection e, post_id m) = Some (f # fs)"
    by (auto simp add: original_found_def split: option.splits list.splits)
  with receive_regenerate [OF assms(1,2) True assms(3)] True show ?thesis
    by (simp add: lookup_reads_def log_event_def)
next
  case False
  with receive_plain [OF assms(1,2) False] show ?thesis
    by (simp add: lookup_reads_def)
qed

lemma receive_original_missing:
  assumes "decode_message e md = Inr payload" and "validate_BlogPostMessage e payload = Inr m"
    and "faults w = []" and "action m = ''regenerate''" and "\<not> original_found e w m"
  shows "receive_message e md w =
           (Inl (ValueError (''Original post not found for regeneration: '' @ post_id m)),
            w\<lparr>trace := trace w @ [Read (posts_collection e) (post_id m)]\<rparr>)"
  using receive_regenerate [OF assms(1,2,4,3)] assms(5)
  by (auto simp add: original_found_def log_event_def split: option.splits list.splits)

lemma job_stage_terminal:
  assumes "faults w = []" and "store w (''posts'', post_id m) = Some r"
    and "map_of r ''status'' = Some (JStr ''failed_permanently'')"
  shows "job_stage e m w = (Inr (Some (post_id m)), log_event (Read ''posts'' (post_id m)) w)"
proof -
  from assms(3) obtain f fs where "r = f # fs" by (cases r) auto
  with assms show ?thesis
    by (simp add: job_stage_def get_document_ok existing_record_stage_def dget_def)
qed

lemma job_stage_ceiling:
  assumes "faults w = []" and "store w (''posts'', post_id m) = Some r" and "r \<noteq> []"
    and "dget r ''status'' (JStr ''processing'') \<noteq> JStr ''failed_permanently''"
    and "dget r ''retry_count'' (JInt 0) = JInt rc"
    and "dget r ''max_retries'' (JInt 3) = JInt mx"
    and "mx \<le> rc"
  shows "job_stage e m w =
           (Inr (Some (post_id m)),
            w\<lparr>store := (store w)((''posts'', post_id m) \<mapsto>
                  merge_fields r
                    [(''status'', JStr ''failed_permanently''),
                     (''errorAt'', JStr (isoformat e (clock w))),
                     (''error'', JStr (''Exceeded maximum retry attempts ('' @ show_int mx @ '')'')),
                     (''retry_count'', JInt rc)]),
              clock := Suc (clock w),
              trace := trace w @
                [Read ''posts'' (post_id m),
                 Patch ''posts'' (post_id m)
                    [(''status'', JStr ''failed_permanently''),
                     (''errorAt'', JStr (isoformat e (clock w))),
                     (''error'', JStr (''Exceeded maximum retry attempts ('' @ show_int mx @ '')'')),
                     (''retry_count'', JInt rc)]]\<rparr>)"
proof -
  from assms(3) obtain f fs where "r = f # fs" by (cases r) auto
  with assms show ?thesis
    by (simp add: job_stage_def get_document_ok existing_record_stage_def py_ge_def now_def
          update_document_ok log_event_def)
qed

text \<open>
  C2, as the code has it. Take a valid message whose post has a job record with status
  \<open>failed_permanently\<close>, and a store that answers. For every action other than
  \<open>regenerate\<close>, and for \<open>regenerate\<close> when the look-up of the original post finds a
  document, the handler returns the post id and changes nothing: the store, the clock
  and the fault schedule are as before and the log gains only the reads. For
  \<open>regenerate\<close> when the original post is not found, the handler raises the ValueError
  of the look-up before it reads the job record; the store is unchanged here too and
  the adapter is not called.
\<close>

theorem failed_permanently_is_terminal:
  assumes "decode_message e message_data = Inr payload"
    and "validate_BlogPostMessage e payload = Inr m"
    and "faults w = []"
    and "store w (''posts'', post_id m) = Some r"
    and "map_of r ''status'' = Some (JStr ''failed_permanently'')"
  shows "((action m = ''regenerate'' \<longrightarrow> original_found e w m) \<longrightarrow>
            process_message e message_data w =
              (Inr (Some (post_id m)),
               w\<lparr>trace := trace w @ lookup_reads e m @ [Read ''posts'' (post_id m)]\<rparr>))
       \<and> (action m = ''regenerate'' \<and> \<not> original_found e w m \<longrightarrow>
            process_message e message_data w =
              (Inl (ValueError (''Original post not found for regeneration: '' @ post_id m)),
               w\<lparr>trace := trace w @ [Read (posts_collection e) (post_id m)]\<rparr>))"
proof (intro conjI impI)
  assume "action m = ''regenerate'' \<longrightarrow> original_found e w m"
  from receive_accepts [OF assms(1-3) this] obtain m' where
    r: "receive_message e message_data w = (Inr m', w\<lparr>trace := trace w @ lookup_reads e m\<rparr>)"
    and p: "post_id m' = post_id m" by blast
  have "job_stage e m' (w\<lparr>trace := trace w @ lookup_reads e m\<rparr>) =
          (Inr (Some (post_id m')),
           log_event (Read ''posts'' (post_id m')) (w\<lparr>trace := trace w @ lookup_reads e m\<rparr>))"
    by (rule job_stage_terminal [where r = r]) (simp_all add: assms p)
  with r p show "process_message e message_data w =
              (Inr (Some (post_id m)),
               w\<lparr>trace := trace w @ lookup_reads e m @ [Read ''posts'' (post_id m)]\<rparr>)"
    by (simp add: process_message_def run_job_def log_event_def)
next
  assume "action m = ''regenerate'' \<and> \<not> original_found e w m"
  with receive_original_missing [OF assms(1-3)]
  show "process_message e message_data w =
              (Inl (ValueError (''Original post not found for regeneration: '' @ post_id m)),
               w\<lparr>trace := trace w @ [Read (posts_collection e) (post_id m)]\<rparr>)"
    by (simp add: process_message_def)
qed

theorem failed_permanently_is_terminal_witness:
  "decode_message sample_env (envelope ''regenerate'') = Inr (JObj (sample_payload ''regenerate'' sample_brief))
   \<and> validate_BlogPostMessage sample_env (JObj (sample_payload ''regenerate'' sample_brief)) = Inr regenerate_message
   \<and> faults (job_world ''failed_permanently'' 3 3) = []
   \<and> store (job_world ''failed_permanently'' 3 3) (''posts'', post_id regenerate_message)
        = Some (job_record ''failed_permanently'' 3 3)
   \<and> map_of (job_record ''failed_permanently'' 3 3) ''status'' = Some (JStr ''failed_permanently'')
   \<and> original_found sample_env (job_world ''failed_permanently'' 3 3) regenerate_message
   \<and> process_message sample_env (envelope ''regenerate'') (job_world ''failed_permanently'' 3 3) =
       (Inr (Some ''p1''),
        (job_world ''failed_permanently'' 3 3)\<lparr>trace := [Read ''posts'' ''p1'', Read ''posts'' ''p1'']\<rparr>)
   \<and> decode_message source_env (envelope ''regenerate'') = Inr (JObj (sample_payload ''regenerate'' sample_brief))
   \<and> validate_BlogPostMessage source_env (JObj (sample_payload ''regenerate'' sample_brief)) = Inr regenerate_message
   \<and> action regenerate_message = ''regenerate''
   \<and> \<not> original_found source_env (job_world ''failed_permanently'' 3 3) regenerate_message
   \<and> process_message source_env (envelope ''regenerate'') (job_world ''failed_permanently'' 3 3) =
       (Inl (ValueError ''Original post not found for regeneration: p1''),
        (job_world ''failed_permanently'' 3 3)\<lparr>trace := [Read ''source_posts'' ''p1'']\<rparr>)"
proof -
  have d: "decode_message sample_env (envelope ''regenerate'') =
             Inr (JObj (sample_payload ''regenerate'' sample_brief))"
    by (rule decode_sample) (simp add: sample_loads_def)
  have d': "decode_message source_env (envelope ''regenerate'') =
             Inr (JObj (sample_payload ''regenerate'' sample_brief))"
    by (rule decode_source) (simp add: sample_loads_def)
  have v: "validate_BlogPostMessage e (JObj (sample_payload ''regenerate'' sample_brief)) =
             Inr regenerate_message" for e
    by (simp add: validate_sample regenerate_message_def)
  have f: "faults (job_world ''failed_permanently'' 3 3) = []"
    by (simp add: job_world_def)
  have s: "store (job_world ''failed_permanently'' 3 3) (''posts'', post_id regenerate_message)
             = Some (job_record ''failed_permanently'' 3 3)"
    by (simp add: job_world_def regenerate_message_def archive_message_def)
  have st: "map_of (job_record ''failed_permanently'' 3 3) ''status'' = Some (JStr ''failed_permanently'')"
    by (simp add: job_record_def)
  have a: "action regenerate_message = ''regenerate''" by (simp add: regenerate_message_def)
  have p: "post_id regenerate_message = ''p1''"
    by (simp add: regenerate_message_def archive_message_def)
  have o: "original_found sample_env (job_world ''failed_permanently'' 3 3) regenerate_message"
    by (simp add: original_found_def sample_env_def job_world_def job_record_def p)
  have o': "\<not> original_found source_env (job_world ''failed_permanently'' 3 3) regenerate_message"
    by (simp add: original_found_def source_env_def sample_env_def job_world_def p)
  have t: "trace (job_world ''failed_permanently'' 3 3) = []" by (simp add: job_world_def)
  from failed_permanently_is_terminal [OF d v f s st] o
  have c: "process_message sample_env (envelope ''regenerate'') (job_world ''failed_permanently'' 3 3) =
       (Inr (Some ''p1''),
        (job_world ''failed_permanently'' 3 3)\<lparr>trace := [Read ''posts'' ''p1'', Read ''posts'' ''p1'']\<rparr>)"
    by (simp add: lookup_reads_def a p t sample_env_def)
  from failed_permanently_is_terminal [OF d' v f s st] o' a
  have c': "process_message source_env (envelope ''regenerate'') (job_world ''failed_permanently'' 3 3) =
       (Inl (ValueError ''Original post not found for regeneration: p1''),
        (job_world ''failed_permanently'' 3 3)\<lparr>trace := [Read ''source_posts'' ''p1'']\<rparr>)"
    by (simp add: p t source_env_def sample_env_def)
  from d v f s st o c d' a o' c' show ?thesis by blast
qed

text \<open>
  The claim as stated fails for \<open>regenerate\<close>: with the original posts kept in a
  collection of their own and no original post for \<open>p1\<close>, the invocation raises
  although the job record of \<open>p1\<close> is \<open>failed_permanently\<close>.
\<close>

theorem terminal_regenerate_raises_counterexample:
  "map_of (job_record ''failed_permanently'' 3 3) ''status'' = Some (JStr ''failed_permanently'')
   \<and> store (job_world ''failed_permanently'' 3 3) (''posts'', ''p1'') = Some (job_record ''failed_permanently'' 3 3)
   \<and> fst (process_message source_env (envelope ''regenerate'') (job_world ''failed_permanently'' 3 3))
       = Inl (ValueError ''Original post not found for regeneration: p1'')"
  by code_simp

text \<open>
  C3, as the code has it. Take a valid message whose post has a job record with a
  status other than \<open>failed_permanently\<close> and integer counters with
  \<open>retry_count \<ge> max_retries\<close> (an absent counter counts as 0, an absent ceiling as 3),
  a store that answers, and, where the action is \<open>regenerate\<close>, an original post that is
  found. Then the handler updates the record with status \<open>failed_permanently\<close>, errorAt
  the current time, error \<open>Exceeded maximum retry attempts (N)\<close> for N the ceiling, and
  the unchanged retry count; it returns the post id; and apart from the reads this
  update is all that happens: the adapter is not called.
\<close>

theorem retry_ceiling_marks_failed:
  assumes "decode_message e message_data = Inr payload"
    and "validate_BlogPostMessage e payload = Inr m"
    and "faults w = []"
    and "action m = ''regenerate'' \<longrightarrow> original_found e w m"
    and "store w (''posts'', post_id m) = Some r" and "r \<noteq> []"
    and "dget r ''status'' (JStr ''processing'') \<noteq> JStr ''failed_permanently''"
    and "dget r ''retry_count'' (JInt 0) = JInt rc"
    and "dget r ''max_retries'' (JInt 3) = JInt mx"
    and "mx \<le> rc"
  shows "process_message e message_data w =
           (Inr (Some (post_id m)),
            w\<lparr>store := (store w)((''posts'', post_id m) \<mapsto>
                  merge_fields r
                    [(''status'', JStr ''failed_permanently''),
                     (''errorAt'', JStr (isoformat e (clock w))),
                     (''error'', JStr (''Exceeded maximum retry attempts ('' @ show_int mx @ '')'')),
                     (''retry_count'', JInt rc)]),
              clock := Suc (clock w),
              trace := trace w @ lookup_reads e m @
                [Read ''posts'' (post_id m),
                 Patch ''posts'' (post_id m)
                    [(''status'', JStr ''failed_permanently''),
                     (''errorAt'', JStr (isoformat e (clock w))),
                     (''error'', JStr (''Exceeded maximum retry attempts ('' @ show_int mx @ '')'')),
                     (''retry_count'', JInt rc)]]\<rparr>)"
proof -
  from receive_accepts [OF assms(1-4)] obtain m' where
    r: "receive_message e message_data w = (Inr m', w\<lparr>trace := trace w @ lookup_reads e m\<rparr>)"
    and p: "post_id m' = post_id m" by blast
  have "job_stage e m' (w\<lparr>trace := trace w @ lookup_reads e m\<rparr>) =
          (Inr (Some (post_id m)),
            w\<lparr>store := (store w)((''posts'', post_id m) \<mapsto>
                  merge_fields r
                    [(''status'', JStr ''failed_permanently''),
                     (''errorAt'', JStr (isoformat e (clock w))),
                     (''error'', JStr (''Exceeded maximum retry attempts ('' @ show_int mx @ '')'')),
                     (''retry_count'', JInt rc)]),
              clock := Suc (clock w),
              trace := trace w @ lookup_reads e m @
                [Read ''posts'' (post_id m),
                 Patch ''posts'' (post_id m)
                    [(''status'', JStr ''failed_permanently''),
                     (''errorAt'', JStr (isoformat e (clock w))),
                     (''error'', JStr (''Exceeded maximum retry attempts ('' @ show_int mx @ '')'')),
                     (''retry_count'', JInt rc)]]\<rparr>)"
    using job_stage_ceiling [of "w\<lparr>trace := trace w @ lookup_reads e m\<rparr>" m' r rc mx e] assms(3,5-10) p
    by simp
  with r show ?thesis
    by (simp add: process_message_def run_job_def)
qed

theorem retry_ceiling_marks_failed_witness:
  "decode_message sample_env (envelope ''created'') = Inr (JObj (sample_payload ''created'' sample_brief))
   \<and> validate_BlogPostMessage sample_env (JObj (sample_payload ''created'' sample_brief)) = Inr created_message
   \<and> faults (job_world ''completed'' 3 3) = []
   \<and> action created_message \<noteq> ''regenerate''
   \<and> store (job_world ''completed'' 3 3) (''posts'', post_id created_message) = Some (job_record ''completed'' 3 3)
   \<and> job_record ''completed'' 3 3 \<noteq> []
   \<and> dget (job_record ''completed'' 3 3) ''status'' (JStr ''processing'') \<noteq> JStr ''failed_permanently''
   \<and> dget (job_record ''completed'' 3 3) ''retry_count'' (JInt 0) = JInt 3
   \<and> dget (job_record ''completed'' 3 3) ''max_retries'' (JInt 3) = JInt 3
   \<and> (3::int) \<le> 3
   \<and> fst (process_message sample_env (envelope ''created'') (job_world ''completed'' 3 3)) = Inr (Some ''p1'')
   \<and> trace (snd (process_message sample_env (envelope ''created'') (job_world ''completed'' 3 3))) =
       [Read ''posts'' ''p1'',
        Patch ''posts'' ''p1''
          [(''status'', JStr ''failed_permanently''), (''errorAt'', JStr ''T0''),
           (''error'', JStr ''Exceeded maximum retry attempts (3)''), (''retry_count'', JInt 3)]]"
proof -
  have d: "decode_message sample_env (envelope ''created'') =
             Inr (JObj (sample_payload ''created'' sample_brief))"
    by (rule decode_sample) (simp add: sample_loads_def)
  have v: "validate_BlogPostMessage sample_env (JObj (sample_payload ''created'' sample_brief)) =
             Inr created_message"
    by (simp add: validate_sample created_message_def)
  have f: "faults (job_world ''completed'' 3 3) = []" by (simp add: job_world_def)
  have na: "action created_message \<noteq> ''regenerate''"
    by (simp add: created_message_def)
  then have a: "action created_message = ''regenerate'' \<longrightarrow>
             original_found sample_env (job_world ''completed'' 3 3) created_message"
    by simp
  have p: "post_id created_message = ''p1''" by (simp add: created_message_def archive_message_def)
  have s: "store (job_world ''completed'' 3 3) (''posts'', post_id created_message) =
             Some (job_record ''completed'' 3 3)"
    by (simp add: job_world_def p)
  have n: "job_record ''completed'' 3 3 \<noteq> []" by (simp add: job_record_def)
  have st: "dget (job_record ''completed'' 3 3) ''status'' (JStr ''processing'') \<noteq> JStr ''failed_permanently''"
    by (simp add: job_record_def dget_def)
  have rc: "dget (job_record ''completed'' 3 3) ''retry_count'' (JInt 0) = JInt 3"
    by (simp add: job_record_def dget_def)
  have mx: "dget (job_record ''completed'' 3 3) ''max_retries'' (JInt 3) = JInt 3"
    by (simp add: job_record_def dget_def)
  have le: "(3::int) \<le> 3" by simp
  have sh: "show_int 3 = ''3''" by code_simp
  have sn: "show_nat 0 = ''0''" by code_simp
  have ac: "action created_message = ''created''" by (simp add: created_message_def)
  from retry_ceiling_marks_failed [OF d v f a s n st rc mx le]
  have c: "fst (process_message sample_env (envelope ''created'') (job_world ''completed'' 3 3)) = Inr (Some ''p1'')"
    and t: "trace (snd (process_message sample_env (envelope ''created'') (job_world ''completed'' 3 3))) =
       [Read ''posts'' ''p1'',
        Patch ''posts'' ''p1''
          [(''status'', JStr ''failed_permanently''), (''errorAt'', JStr ''T0''),
           (''error'', JStr ''Exceeded maximum retry attempts (3)''), (''retry_count'', JInt 3)]]"
    by (simp_all add: p ac sh sn lookup_reads_def job_world_def sample_env_def)
  from d v f na s n st rc mx le c t show ?thesis by blast
qed

text \<open>
  The claim as stated fails for \<open>regenerate\<close>: with no original post in the source
  collection the invocation raises and the job record, at its ceiling with status
  \<open>error\<close>, stays as it was.
\<close>

theorem ceiling_regenerate_raises_counterexample:
  "store (job_world ''error'' 3 3) (''posts'', ''p1'') = Some (job_record ''error'' 3 3)
   \<and> fst (process_message source_env (envelope ''regenerate'') (job_world ''error'' 3 3))
       = Inl (ValueError ''Original post not found for regeneration: p1'')
   \<and> store (snd (process_message source_env (envelope ''regenerate'') (job_world ''error'' 3 3))) (''posts'', ''p1'')
       = Some (job_record ''error'' 3 3)"
  by code_simp

end
